theory Spec2Isabelle
  imports Main
begin

section \<open>JavaScript values\<close>

text \<open>
  The remote-config client of \<^verbatim>\<open>src/services/github.ts\<close> works on untyped decoded
  values (\<^verbatim>\<open>unknown\<close>). They are embedded as a tagged variant. Numbers are IEEE doubles
  in the source; the client never calculates with them, it only produces them
  (\<^verbatim>\<open>parseFloat\<close>, \<^verbatim>\<open>JSON.parse\<close>), tests them (\<^verbatim>\<open>typeof\<close>, truthiness) and prints them
  (\<^verbatim>\<open>String\<close>). The number type is therefore a type parameter \<open>'n\<close>, and the built-in
  operations on it are supplied by a record of built-ins.

  Strings are lists of code units. All text the client scans comes out of
  \<^verbatim>\<open>atob\<close>, whose result only has code units below 256, which is what \<^typ>\<open>char\<close> holds.
  (An escape in a JSON text can give a string a larger code unit; the normalizer only
  tests strings for emptiness and equality and concatenates them, so nothing below
  depends on the size of a code unit.)

  An object is an ordinary object, as \<^verbatim>\<open>JSON.parse\<close> and an object literal create it,
  given by the list of its own properties in insertion order. (The host lists keys that
  look like array indices first; the client only counts and looks up keys.)
\<close>

datatype 'n jsval =
    JUndefined
  | JNull
  | JBool bool
  | JNum 'n
  | JStr string
  | JArr "'n jsval list"
  | JObj "(string \<times> 'n jsval) list"

type_synonym 'n props = "(string \<times> 'n jsval) list"

text \<open>What the source can throw: the built-in errors, and \<^verbatim>\<open>new Error(message)\<close>.\<close>

datatype js_error =
    TypeError
  | SyntaxError
  | InvalidCharacterError
  | NetworkError
  | Error string

text \<open>
  The built-ins of the host the client calls. \<open>JSON_parse\<close> is \<open>None\<close> where the
  host raises a SyntaxError; \<open>Date_getTime v\<close> is \<^verbatim>\<open>new Date(v).getTime()\<close> for a
  primitive \<open>v\<close>, an integral number of milliseconds or \<open>None\<close> for NaN; \<open>atob\<close> is
  \<open>None\<close> where the host raises. \<open>JSON_number n\<close> is what the number \<open>n\<close> is read back as
  after \<^verbatim>\<open>JSON.stringify\<close> has written it: the number itself when it is finite (zero for
  negative zero), and \<^verbatim>\<open>null\<close> for NaN and the infinities.
\<close>

record 'n builtins =
  parseFloat :: "string \<Rightarrow> 'n"
  Number_toString :: "'n \<Rightarrow> string"
  Number_falsy :: "'n \<Rightarrow> bool"
  JSON_parse :: "string \<Rightarrow> 'n jsval option"
  JSON_stringify :: "'n jsval \<Rightarrow> string"
  JSON_number :: "'n \<Rightarrow> 'n jsval"
  Date_getTime :: "'n jsval \<Rightarrow> int option"
  toISOString :: "int \<Rightarrow> string"
  atob :: "'n jsval \<Rightarrow> string option"

subsection \<open>String built-ins\<close>

text \<open>
  \<^verbatim>\<open>String.prototype.trim\<close> removes white space and line terminators at both ends.
  Among the code units below 256 these are TAB, LF, VT, FF, CR, SP and NBSP.
\<close>

definition is_space :: "char \<Rightarrow> bool" where
  "is_space c \<longleftrightarrow>
     c = CHR 0x09 \<or> c = CHR 0x0A \<or> c = CHR 0x0B \<or> c = CHR 0x0C \<or> c = CHR 0x0D \<or>
     c = CHR 0x20 \<or> c = CHR 0xA0"

definition trim :: "string \<Rightarrow> string" where
  "trim s = rev (dropWhile is_space (rev (dropWhile is_space s)))"

definition startsWith :: "string \<Rightarrow> string \<Rightarrow> bool" where
  "startsWith s p \<longleftrightarrow> take (length p) s = p"

definition endsWith :: "string \<Rightarrow> string \<Rightarrow> bool" where
  "endsWith s p \<longleftrightarrow> length p \<le> length s \<and> drop (length s - length p) s = p"

definition includes_chr :: "string \<Rightarrow> char \<Rightarrow> bool" where
  "includes_chr s c \<longleftrightarrow> c \<in> set s"

text \<open>\<^verbatim>\<open>s.indexOf(c)\<close>, used by the source only after \<^verbatim>\<open>s.includes(c)\<close>.\<close>

definition indexOf :: "string \<Rightarrow> char \<Rightarrow> nat" where
  "indexOf s c = length (takeWhile (\<lambda>x. x \<noteq> c) s)"

text \<open>\<^verbatim>\<open>s.split(c)\<close> for a single-character separator: never an empty list.\<close>

fun split :: "string \<Rightarrow> char \<Rightarrow> string list" where
  "split [] c = [[]]"
| "split (x # xs) c =
     (if x = c then [] # split xs c
      else (case split xs c of [] \<Rightarrow> [[x]] | y # ys \<Rightarrow> (x # y) # ys))"

fun join :: "string list \<Rightarrow> string \<Rightarrow> string" where
  "join [] sep = []"
| "join [x] sep = x"
| "join (x # y # ys) sep = x @ sep @ join (y # ys) sep"

text \<open>\<^verbatim>\<open>s.slice(1, -1)\<close>.\<close>

definition slice_1_m1 :: "string \<Rightarrow> string" where
  "slice_1_m1 s = butlast (drop 1 s)"

definition is_digit :: "char \<Rightarrow> bool" where
  "is_digit c \<longleftrightarrow> c \<in> set ''0123456789''"

text \<open>The regular expression \<^verbatim>\<open>/^-?\d+(\.\d+)?$/\<close>.\<close>

definition all_digits1 :: "string \<Rightarrow> bool" where
  "all_digits1 s \<longleftrightarrow> s \<noteq> [] \<and> list_all is_digit s"

definition matches_number :: "string \<Rightarrow> bool" where
  "matches_number s =
     (let u = (if startsWith s ''-'' then drop 1 s else s);
          ip = takeWhile is_digit u;
          rest = dropWhile is_digit u
      in ip \<noteq> [] \<and> (rest = [] \<or> (startsWith rest ''.'' \<and> all_digits1 (drop 1 rest))))"

text \<open>Decimal printing of an array index or a status code (a template literal).\<close>

fun digits_of :: "nat \<Rightarrow> nat \<Rightarrow> string" where
  "digits_of 0 n = []"
| "digits_of (Suc fuel) n =
     (if n < 10 then [char_of (48 + n)]
      else digits_of fuel (n div 10) @ [char_of (48 + n mod 10)])"

definition show_nat :: "nat \<Rightarrow> string" where
  "show_nat n = digits_of (Suc n) n"

section \<open>The structured-text decoder\<close>

text \<open>
  \<^verbatim>\<open>parseYamlValue\<close>: the empty string stays a string; a quoted string loses its quotes;
  a decimal literal becomes a number; then the booleans and null; anything else is a string.
\<close>

definition parseYamlValue :: "'n builtins \<Rightarrow> string \<Rightarrow> 'n jsval" where
  "parseYamlValue B v =
     (if v = [] then JStr []
      else if (startsWith v ''\"'' \<and> endsWith v ''\"'') \<or>
              (startsWith v [CHR 0x27] \<and> endsWith v [CHR 0x27]) then JStr (slice_1_m1 v)
      else if matches_number v then JNum (parseFloat B v)
      else if v = ''true'' then JBool True
      else if v = ''false'' then JBool False
      else if v = ''null'' \<or> v = ''~'' then JNull
      else JStr v)"

text \<open>
  An object the decoder is filling: its own properties and whether its prototype is
  still \<^verbatim>\<open>Object.prototype\<close>. The prototype matters to the decoder in one way only:
  \<^verbatim>\<open>__proto__\<close> is an accessor of \<^verbatim>\<open>Object.prototype\<close>.
\<close>

record 'n filling =
  own :: "'n props"
  plain :: bool

definition empty_object :: "'n filling" where
  "empty_object = \<lparr> own = [], plain = True \<rparr>"

fun update_prop :: "'n props \<Rightarrow> string \<Rightarrow> 'n jsval \<Rightarrow> 'n props" where
  "update_prop [] k v = [(k, v)]"
| "update_prop ((k', v') # ps) k v =
     (if k' = k then (k, v) # ps else (k', v') # update_prop ps k v)"

text \<open>
  \<^verbatim>\<open>obj[key] = value\<close>, as the decoder does it: the value is a scalar, or it is the
  nested object and the key is \<^verbatim>\<open>metrics\<close> or \<^verbatim>\<open>files\<close>. An existing own property keeps
  its place. Assigning to \<^verbatim>\<open>__proto__\<close> while the prototype is \<^verbatim>\<open>Object.prototype\<close> runs
  its setter: \<^verbatim>\<open>null\<close> removes the prototype, any other scalar is ignored, and no own
  property is created. Once the prototype is removed, \<^verbatim>\<open>__proto__\<close> is a key like any
  other.
\<close>

definition obj_set :: "'n filling \<Rightarrow> string \<Rightarrow> 'n jsval \<Rightarrow> 'n filling" where
  "obj_set obj k v =
     (if k = ''__proto__'' \<and> plain obj then
        (if v = JNull then obj \<lparr> plain := False \<rparr> else obj)
      else obj \<lparr> own := update_prop (own obj) k v \<rparr>)"

text \<open>
  The finished object as a value. Its prototype is not kept: the normalizer reads
  none of its keys from a prototype, and it never converts a decoded record or a nested
  group to a string.
\<close>

definition finished :: "'n filling \<Rightarrow> 'n jsval" where
  "finished obj = JObj (own obj)"

text \<open>The loop state of \<^verbatim>\<open>parseYaml\<close>: its four local variables.\<close>

record 'n yaml_state =
  result :: "'n jsval list"
  currentObject :: "'n filling option"
  currentNested :: "'n filling option"
  currentNestedKey :: "string option"

text \<open>
  The test \<^verbatim>\<open>currentNested && currentNestedKey\<close> and the test with
  \<^verbatim>\<open>Object.keys(currentNested).length > 0\<close> added.
\<close>

definition nested_open :: "'n yaml_state \<Rightarrow> bool" where
  "nested_open st \<longleftrightarrow>
     (case (currentNested st, currentNestedKey st) of
        (Some n, Some k) \<Rightarrow> k \<noteq> []
      | _ \<Rightarrow> False)"

definition nested_pending :: "'n yaml_state \<Rightarrow> bool" where
  "nested_pending st \<longleftrightarrow>
     (case (currentNested st, currentNestedKey st) of
        (Some n, Some k) \<Rightarrow> k \<noteq> [] \<and> length (own n) > 0
      | _ \<Rightarrow> False)"

text \<open>\<^verbatim>\<open>currentObject[currentNestedKey] = currentNested\<close> under that test.\<close>

definition attach_nested :: "'n yaml_state \<Rightarrow> 'n filling \<Rightarrow> 'n filling" where
  "attach_nested st obj =
     (case (currentNested st, currentNestedKey st) of
        (Some n, Some k) \<Rightarrow>
          if k \<noteq> [] \<and> length (own n) > 0 then obj_set obj k (finished n) else obj
      | _ \<Rightarrow> obj)"

text \<open>The inline \<^verbatim>\<open>key: value\<close> after the dash, assigned to the new object.\<close>

definition inline_field :: "'n builtins \<Rightarrow> string \<Rightarrow> 'n filling" where
  "inline_field B afterDash =
     (if afterDash \<noteq> [] then
        (case split afterDash (CHR '':'') of
           [] \<Rightarrow> empty_object
         | key # valueParts \<Rightarrow>
             if key \<noteq> [] \<and> length valueParts > 0
             then obj_set empty_object (trim key)
                    (parseYamlValue B (trim (join valueParts '':'')))
             else empty_object)
      else empty_object)"

text \<open>One iteration of the loop over the lines.\<close>

definition yaml_line :: "'n builtins \<Rightarrow> 'n yaml_state \<Rightarrow> string \<Rightarrow> 'n yaml_state" where
  "yaml_line B st line =
     (let trimmed = trim line in
      if trimmed = [] \<or> startsWith trimmed ''#'' then st
      else if startsWith trimmed ''- '' then
        \<lparr> result = (case currentObject st of
                       None \<Rightarrow> result st
                     | Some obj \<Rightarrow> result st @ [finished (attach_nested st obj)]),
          currentObject = Some (inline_field B (trim (drop 2 trimmed))),
          currentNested = None,
          currentNestedKey = None \<rparr>
      else
        (case currentObject st of
           None \<Rightarrow> st
         | Some obj \<Rightarrow>
             if \<not> includes_chr trimmed (CHR '':'') then st
             else
               let colonIndex = indexOf trimmed (CHR '':'');
                   key = trim (take colonIndex trimmed);
                   val = trim (drop (colonIndex + 1) trimmed)
               in
                 if (key = ''metrics'' \<or> key = ''files'') \<and> val = [] then
                   st \<lparr> currentObject := Some (attach_nested st obj),
                        currentNestedKey := Some key,
                        currentNested := Some empty_object \<rparr>
                 else if nested_open st \<and>
                         (startsWith line ''      '' \<or> startsWith line ''    '') then
                   st \<lparr> currentNested :=
                          map_option (\<lambda>n. obj_set n key (parseYamlValue B val))
                            (currentNested st) \<rparr>
                 else if nested_pending st then
                   st \<lparr> currentObject :=
                          Some (obj_set (attach_nested st obj) key (parseYamlValue B val)),
                        currentNested := None,
                        currentNestedKey := None \<rparr>
                 else
                   st \<lparr> currentObject := Some (obj_set obj key (parseYamlValue B val)) \<rparr>))"

definition yaml_init :: "'n yaml_state" where
  "yaml_init =
     \<lparr> result = [], currentObject = None, currentNested = None, currentNestedKey = None \<rparr>"

text \<open>After the loop: the last object is not forgotten.\<close>

definition yaml_finish :: "'n yaml_state \<Rightarrow> 'n jsval list" where
  "yaml_finish st =
     (case currentObject st of
        None \<Rightarrow> result st
      | Some obj \<Rightarrow> result st @ [finished (attach_nested st obj)])"

definition parseYaml :: "'n builtins \<Rightarrow> string \<Rightarrow> 'n jsval" where
  "parseYaml B content =
     JArr (yaml_finish (foldl (yaml_line B) yaml_init (split content (CHR 0x0A))))"

section \<open>The record normalizer\<close>

text \<open>
  Truthiness, as \<^verbatim>\<open>||\<close> and the conditional operator test it: \<^verbatim>\<open>undefined\<close>,
  \<^verbatim>\<open>null\<close>, \<^verbatim>\<open>false\<close>, the numbers zero and NaN and the empty string are falsy, every
  array and every object is truthy.
\<close>

fun truthy :: "'n builtins \<Rightarrow> 'n jsval \<Rightarrow> bool" where
  "truthy B JUndefined = False"
| "truthy B JNull = False"
| "truthy B (JBool b) = b"
| "truthy B (JNum n) = (\<not> Number_falsy B n)"
| "truthy B (JStr s) = (s \<noteq> [])"
| "truthy B (JArr xs) = True"
| "truthy B (JObj ps) = True"

text \<open>
  A property read \<^verbatim>\<open>v.k\<close>. On \<^verbatim>\<open>undefined\<close> and \<^verbatim>\<open>null\<close> it raises a TypeError. On an
  object it is the own property or \<^verbatim>\<open>undefined\<close>; on any other value it is \<^verbatim>\<open>undefined\<close>:
  none of the keys this client reads is a property of a prototype.
\<close>

fun getprop :: "'n jsval \<Rightarrow> string \<Rightarrow> 'n jsval" where
  "getprop (JObj ps) k = (case map_of ps k of None \<Rightarrow> JUndefined | Some v \<Rightarrow> v)"
| "getprop v k = JUndefined"

fun js_get :: "'n jsval \<Rightarrow> string \<Rightarrow> js_error + 'n jsval" where
  "js_get JUndefined k = Inl TypeError"
| "js_get JNull k = Inl TypeError"
| "js_get v k = Inr (getprop v k)"

definition bindE :: "js_error + 'a \<Rightarrow> ('a \<Rightarrow> js_error + 'b) \<Rightarrow> js_error + 'b" where
  "bindE m f = (case m of Inl e \<Rightarrow> Inl e | Inr x \<Rightarrow> f x)"

text \<open>Running the conversions of a list from left to right; the first error ends it.\<close>

fun sequenceE :: "(js_error + 'a) list \<Rightarrow> js_error + 'a list" where
  "sequenceE [] = Inr []"
| "sequenceE (m # ms) =
     (case m of
        Inl e \<Rightarrow> Inl e
      | Inr x \<Rightarrow> (case sequenceE ms of Inl e \<Rightarrow> Inl e | Inr xs \<Rightarrow> Inr (x # xs)))"

text \<open>
  \<^verbatim>\<open>String(v)\<close>. An array is the join of its elements with a comma, \<^verbatim>\<open>undefined\<close> and
  \<^verbatim>\<open>null\<close> elements giving the empty string. An ordinary object is
  \<^verbatim>\<open>[object Object]\<close>, unless it has an own property \<^verbatim>\<open>toString\<close>: a decoded value is
  never callable, so the conversion finds no method that returns a primitive and raises
  a TypeError.
\<close>

fun js_String :: "'n builtins \<Rightarrow> 'n jsval \<Rightarrow> js_error + string" where
  "js_String B JUndefined = Inr ''undefined''"
| "js_String B JNull = Inr ''null''"
| "js_String B (JBool b) = Inr (if b then ''true'' else ''false'')"
| "js_String B (JNum n) = Inr (Number_toString B n)"
| "js_String B (JStr s) = Inr s"
| "js_String B (JArr xs) =
     (case sequenceE
             (map (\<lambda>x. if x = JUndefined \<or> x = JNull then Inr [] else js_String B x) xs) of
        Inl e \<Rightarrow> Inl e
      | Inr parts \<Rightarrow> Inr (join parts '',''))"
| "js_String B (JObj ps) =
     (if map_of ps ''toString'' \<noteq> None then Inl TypeError else Inr ''[object Object]'')"

text \<open>\<^verbatim>\<open>a || b\<close>.\<close>

definition or_else :: "'n builtins \<Rightarrow> 'n jsval \<Rightarrow> 'n jsval \<Rightarrow> 'n jsval" where
  "or_else B a b = (if truthy B a then a else b)"

text \<open>\<^verbatim>\<open>typeof v === "number" ? v : undefined\<close> and the same for strings.\<close>

fun number_or_undefined :: "'n jsval \<Rightarrow> 'n option" where
  "number_or_undefined (JNum n) = Some n"
| "number_or_undefined v = None"

fun string_or_undefined :: "'n jsval \<Rightarrow> string option" where
  "string_or_undefined (JStr s) = Some s"
| "string_or_undefined v = None"

definition validStatuses :: "string list" where
  "validStatuses = [''development'', ''staging'', ''production'', ''archived'']"

fun validateStatus :: "'n jsval \<Rightarrow> string" where
  "validateStatus (JStr s) = (if s \<in> set validStatuses then s else ''development'')"
| "validateStatus v = ''development''"

record 'n Metrics =
  accuracy :: "'n option"
  latency :: "'n option"

record Files =
  modelCard :: "string option"
  trainingScript :: "string option"
  featureScript :: "string option"
  inferenceScript :: "string option"
  modelFile :: "string option"

text \<open>The interface \<^verbatim>\<open>Model\<close>; its field \<^verbatim>\<open>id\<close> is \<open>model_id\<close> here.\<close>

record 'n Model =
  model_id :: string
  name :: string
  version :: string
  description :: string
  framework :: string
  status :: string
  owner :: string
  createdAt :: string
  updatedAt :: string
  metrics :: "'n Metrics option"
  files :: "Files option"

definition metrics_of :: "'n builtins \<Rightarrow> 'n jsval \<Rightarrow> 'n Metrics option" where
  "metrics_of B m =
     (if truthy B m then
        Some \<lparr> accuracy = number_or_undefined (getprop m ''accuracy''),
               latency = number_or_undefined (getprop m ''latency'') \<rparr>
      else None)"

definition files_of :: "'n builtins \<Rightarrow> 'n jsval \<Rightarrow> Files option" where
  "files_of B filesObj =
     (if truthy B filesObj then
        Some \<lparr> modelCard = string_or_undefined (getprop filesObj ''modelCard''),
               trainingScript = string_or_undefined (getprop filesObj ''trainingScript''),
               featureScript = string_or_undefined (getprop filesObj ''featureScript''),
               inferenceScript = string_or_undefined (getprop filesObj ''inferenceScript''),
               modelFile = string_or_undefined (getprop filesObj ''modelFile'') \<rparr>
      else None)"

text \<open>
  \<^verbatim>\<open>normalizeModel(item, index)\<close>; \<open>now\<close> is \<^verbatim>\<open>new Date().toISOString()\<close>. The first
  property read, \<^verbatim>\<open>obj.files\<close>, raises on \<^verbatim>\<open>null\<close> and \<^verbatim>\<open>undefined\<close>; after it every
  read is that of \<open>getprop\<close>. The fields are evaluated in the order of the object literal.
\<close>

definition normalizeModel ::
  "'n builtins \<Rightarrow> string \<Rightarrow> 'n jsval \<Rightarrow> nat \<Rightarrow> js_error + 'n Model" where
  "normalizeModel B now item index =
     bindE (js_get item ''files'') (\<lambda>filesObj.
     bindE (js_String B (or_else B (getprop item ''id'') (JStr (''model-'' @ show_nat index)))) (\<lambda>i.
     bindE (js_String B (or_else B (getprop item ''name'') (JStr ''Unnamed Model''))) (\<lambda>n.
     bindE (js_String B (or_else B (getprop item ''version'') (JStr ''1.0.0''))) (\<lambda>v.
     bindE (js_String B (or_else B (getprop item ''description'') (JStr []))) (\<lambda>d.
     bindE (js_String B (or_else B (getprop item ''framework'') (JStr ''Unknown''))) (\<lambda>f.
     bindE (js_String B (or_else B (getprop item ''owner'') (JStr ''Unknown''))) (\<lambda>ow.
     bindE (js_String B (or_else B (getprop item ''createdAt'')
                          (or_else B (getprop item ''created_at'') (JStr now)))) (\<lambda>c.
     bindE (js_String B (or_else B (getprop item ''updatedAt'')
                          (or_else B (getprop item ''updated_at'') (JStr now)))) (\<lambda>u.
       Inr \<lparr> model_id = i, name = n, version = v, description = d, framework = f,
             status = validateStatus (getprop item ''status''), owner = ow,
             createdAt = c, updatedAt = u,
             metrics = metrics_of B (getprop item ''metrics''),
             files = files_of B filesObj \<rparr>)))))))))"

section \<open>The remote config client\<close>

definition JSON_parse_E :: "'n builtins \<Rightarrow> string \<Rightarrow> js_error + 'n jsval" where
  "JSON_parse_E B s = (case JSON_parse B s of None \<Rightarrow> Inl SyntaxError | Some v \<Rightarrow> Inr v)"

text \<open>
  \<^verbatim>\<open>modelsArray.map((item, index) => normalizeModel(item, index))\<close>, from index \<open>i\<close> on.
  Each call reads the clock itself: \<open>clock i\<close> is \<^verbatim>\<open>new Date().toISOString()\<close> in the
  call for index \<open>i\<close>.
\<close>

fun normalize_from ::
  "'n builtins \<Rightarrow> (nat \<Rightarrow> string) \<Rightarrow> nat \<Rightarrow> 'n jsval list \<Rightarrow> js_error + 'n Model list"
  where
  "normalize_from B clock i [] = Inr []"
| "normalize_from B clock i (x # xs) =
     (case normalizeModel B (clock i) x i of
        Inl e \<Rightarrow> Inl e
      | Inr m \<Rightarrow>
          (case normalize_from B clock (Suc i) xs of
             Inl e \<Rightarrow> Inl e
           | Inr ms \<Rightarrow> Inr (m # ms)))"

definition isYaml :: "string \<Rightarrow> bool" where
  "isYaml path \<longleftrightarrow> endsWith path ''.yaml'' \<or> endsWith path ''.yml''"

fun isArray :: "'n jsval \<Rightarrow> bool" where
  "isArray (JArr xs) = True"
| "isArray v = False"

definition MalformedConfig :: js_error where
  "MalformedConfig = Error ''Config file must contain an array of models''"

text \<open>\<^verbatim>\<open>Array.isArray(data) ? data : data.models\<close>.\<close>

definition modelsArray_of :: "'n jsval \<Rightarrow> js_error + 'n jsval" where
  "modelsArray_of data = (if isArray data then Inr data else js_get data ''models'')"

definition parseConfigFile ::
  "'n builtins \<Rightarrow> (nat \<Rightarrow> string) \<Rightarrow> string \<Rightarrow> string \<Rightarrow> js_error + 'n Model list"
  where
  "parseConfigFile B clock content path =
     bindE (if isYaml path then Inr (parseYaml B content) else JSON_parse_E B content) (\<lambda>data.
     bindE (modelsArray_of data) (\<lambda>modelsArray.
       (case modelsArray of
          JArr items \<Rightarrow> normalize_from B clock 0 items
        | _ \<Rightarrow> Inl MalformedConfig)))"

section \<open>Settings, cache and fetch\<close>

definition SETTINGS_KEY :: string where
  "SETTINGS_KEY = ''github_settings''"

definition CACHE_KEY :: string where
  "CACHE_KEY = ''github_cache''"

definition CACHE_TTL :: int where
  "CACHE_TTL = 5 * 60 * 1000"

record GitHubSettings =
  repoOwner :: string
  repoName :: string
  branch :: string
  configPath :: string
  token :: string

record request =
  url :: string
  headers :: "(string \<times> string) list"

text \<open>
  What the client reads of a response: its status, and what \<^verbatim>\<open>response.json()\<close> gives.
  \<^verbatim>\<open>response.ok\<close> is the status being in the range 200 to 299.
\<close>

record 'n response =
  resp_status :: nat
  resp_json :: "js_error + 'n jsval"

definition ok :: "'n response \<Rightarrow> bool" where
  "ok r \<longleftrightarrow> 200 \<le> resp_status r \<and> resp_status r \<le> 299"

text \<open>
  What surrounds a call: \<^verbatim>\<open>localStorage\<close>, the clock in milliseconds and the
  network (\<^verbatim>\<open>fetch\<close>, which may reject). The clock is read at several points of a
  call, and each reading is its own: by \<^verbatim>\<open>Date.now()\<close> in \<^verbatim>\<open>getCache\<close>, by
  \<^verbatim>\<open>new Date()\<close> in the call of \<^verbatim>\<open>normalizeModel\<close> for each index, and by
  \<^verbatim>\<open>new Date()\<close> in \<^verbatim>\<open>setCache\<close>.
\<close>

record 'n env =
  storage :: "string \<rightharpoonup> string"
  Date_now :: int
  Date_normalize :: "nat \<Rightarrow> int"
  Date_setCache :: int
  fetch :: "request \<Rightarrow> js_error + 'n response"

text \<open>\<^verbatim>\<open>try { body } catch { handler }\<close>.\<close>

definition try_catch :: "js_error + 'a \<Rightarrow> (js_error + 'a) \<Rightarrow> js_error + 'a" where
  "try_catch body handler = (case body of Inl e \<Rightarrow> handler | Inr x \<Rightarrow> Inr x)"

text \<open>\<^verbatim>\<open>getSettings\<close>; \<^verbatim>\<open>!stored\<close> holds of \<^verbatim>\<open>null\<close> and of the empty string.\<close>

definition getSettings :: "'n builtins \<Rightarrow> 'n env \<Rightarrow> js_error + 'n jsval" where
  "getSettings B E =
     (case storage E SETTINGS_KEY of
        None \<Rightarrow> Inr JNull
      | Some stored \<Rightarrow>
          if stored = [] then Inr JNull
          else try_catch (JSON_parse_E B stored) (Inr JNull))"

text \<open>
  \<^verbatim>\<open>new Date(v).getTime()\<close>. An object or an array is first converted to a primitive,
  which for a decoded value is its string conversion and raises where that raises.
\<close>

definition new_Date_getTime :: "'n builtins \<Rightarrow> 'n jsval \<Rightarrow> js_error + int option" where
  "new_Date_getTime B v =
     (case v of
        JArr xs \<Rightarrow> bindE (js_String B v) (\<lambda>s. Inr (Date_getTime B (JStr s)))
      | JObj ps \<Rightarrow> bindE (js_String B v) (\<lambda>s. Inr (Date_getTime B (JStr s)))
      | _ \<Rightarrow> Inr (Date_getTime B v))"

text \<open>
  \<^verbatim>\<open>Date.now() - lastFetched > CACHE_TTL\<close>; the comparison is false when
  \<^verbatim>\<open>lastFetched\<close> is NaN.
\<close>

definition expired :: "'n builtins \<Rightarrow> 'n env \<Rightarrow> 'n jsval \<Rightarrow> js_error + bool" where
  "expired B E lf =
     bindE (new_Date_getTime B lf) (\<lambda>t.
       Inr (case t of
              None \<Rightarrow> False
            | Some lastFetched \<Rightarrow> Date_now E - lastFetched > CACHE_TTL))"

definition getCache :: "'n builtins \<Rightarrow> 'n env \<Rightarrow> js_error + 'n jsval" where
  "getCache B E =
     (case storage E CACHE_KEY of
        None \<Rightarrow> Inr JNull
      | Some stored \<Rightarrow>
          if stored = [] then Inr JNull
          else
            try_catch
              (bindE (JSON_parse_E B stored) (\<lambda>cache.
               bindE (js_get cache ''lastFetched'') (\<lambda>lf.
               bindE (expired B E lf) (\<lambda>old.
                 if old then Inr JNull else Inr cache))))
              (Inr JNull))"

text \<open>The object literal that \<^verbatim>\<open>normalizeModel\<close> returns, as a value.\<close>

definition opt_js :: "('a \<Rightarrow> 'n jsval) \<Rightarrow> 'a option \<Rightarrow> 'n jsval" where
  "opt_js f x = (case x of None \<Rightarrow> JUndefined | Some y \<Rightarrow> f y)"

definition metrics_to_js :: "'n Metrics \<Rightarrow> 'n jsval" where
  "metrics_to_js mt =
     JObj [(''accuracy'', opt_js JNum (accuracy mt)), (''latency'', opt_js JNum (latency mt))]"

definition files_to_js :: "Files \<Rightarrow> 'n jsval" where
  "files_to_js fs =
     JObj [(''modelCard'', opt_js JStr (modelCard fs)),
           (''trainingScript'', opt_js JStr (trainingScript fs)),
           (''featureScript'', opt_js JStr (featureScript fs)),
           (''inferenceScript'', opt_js JStr (inferenceScript fs)),
           (''modelFile'', opt_js JStr (modelFile fs))]"

definition model_to_js :: "'n Model \<Rightarrow> 'n jsval" where
  "model_to_js m =
     JObj [(''id'', JStr (model_id m)), (''name'', JStr (name m)),
           (''version'', JStr (version m)), (''description'', JStr (description m)),
           (''framework'', JStr (framework m)), (''status'', JStr (status m)),
           (''owner'', JStr (owner m)), (''createdAt'', JStr (createdAt m)),
           (''updatedAt'', JStr (updatedAt m)),
           (''metrics'', opt_js metrics_to_js (metrics m)),
           (''files'', opt_js files_to_js (files m))]"

definition setCache ::
  "'n builtins \<Rightarrow> 'n env \<Rightarrow> 'n Model list \<Rightarrow> string \<Rightarrow> (string \<rightharpoonup> string)" where
  "setCache B E models repoUrl =
     (storage E)(CACHE_KEY \<mapsto>
        JSON_stringify B
          (JObj [(''models'', JArr (map model_to_js models)),
                 (''lastFetched'', JStr (toISOString B (Date_setCache E))),
                 (''repoUrl'', JStr repoUrl)]))"

text \<open>The errors of the fetch, under the names of the specification's taxonomy.\<close>

definition ConfigNotFound :: "string \<Rightarrow> js_error" where
  "ConfigNotFound path = Error (''Config file not found: '' @ path)"

definition InvalidCredential :: js_error where
  "InvalidCredential = Error ''Invalid GitHub token''"

definition RateLimitedOrDenied :: js_error where
  "RateLimitedOrDenied = Error ''Rate limited or access denied''"

definition TransportError :: "nat \<Rightarrow> js_error" where
  "TransportError code = Error (''GitHub API error: '' @ show_nat code)"

definition request_of :: "GitHubSettings \<Rightarrow> request" where
  "request_of settings =
     \<lparr> url = ''https://api.github.com/repos/'' @ repoOwner settings @ ''/'' @
             repoName settings @ ''/contents/'' @ configPath settings @ ''?ref='' @
             branch settings,
       headers =
         (''Accept'', ''application/vnd.github.v3+json'') #
         (if token settings \<noteq> [] then [(''Authorization'', ''Bearer '' @ token settings)]
          else []) \<rparr>"

definition atob_E :: "'n builtins \<Rightarrow> 'n jsval \<Rightarrow> js_error + string" where
  "atob_E B v = (case atob B v of None \<Rightarrow> Inl InvalidCharacterError | Some s \<Rightarrow> Inr s)"

text \<open>The part of \<^verbatim>\<open>fetchModelsFromGitHub\<close> between the response and the cache write.\<close>

definition handle_response ::
  "'n builtins \<Rightarrow> 'n env \<Rightarrow> GitHubSettings \<Rightarrow> 'n response \<Rightarrow> js_error + 'n Model list" where
  "handle_response B E settings response =
     (if \<not> ok response then
        (if resp_status response = 404 then Inl (ConfigNotFound (configPath settings))
         else if resp_status response = 401 then Inl InvalidCredential
         else if resp_status response = 403 then Inl RateLimitedOrDenied
         else Inl (TransportError (resp_status response)))
      else
        bindE (resp_json response) (\<lambda>data.
        bindE (js_get data ''content'') (\<lambda>c.
        bindE (atob_E B c) (\<lambda>content.
          parseConfigFile B (\<lambda>i. toISOString B (Date_normalize E i)) content
            (configPath settings)))))"

text \<open>
  The value a call returns is either what the cache entry holds under \<^verbatim>\<open>models\<close>,
  unchecked, or the freshly normalized list.
\<close>

datatype 'n fetched = FromCache "'n jsval" | Fetched "'n Model list"

record 'n outcome =
  returned :: "js_error + 'n fetched"
  requests :: "request list"
  storage_after :: "string \<rightharpoonup> string"

definition fetchModelsFromGitHub :: "'n builtins \<Rightarrow> 'n env \<Rightarrow> GitHubSettings \<Rightarrow> 'n outcome" where
  "fetchModelsFromGitHub B E settings =
     (let repoUrl = repoOwner settings @ ''/'' @ repoName settings in
      case getCache B E of
        Inl e \<Rightarrow> \<lparr> returned = Inl e, requests = [], storage_after = storage E \<rparr>
      | Inr cached \<Rightarrow>
          if truthy B cached \<and> getprop cached ''repoUrl'' = JStr repoUrl then
            \<lparr> returned = Inr (FromCache (getprop cached ''models'')),
              requests = [], storage_after = storage E \<rparr>
          else
            (case bindE (fetch E (request_of settings)) (handle_response B E settings) of
               Inl e \<Rightarrow>
                 \<lparr> returned = Inl e, requests = [request_of settings],
                   storage_after = storage E \<rparr>
             | Inr parsed \<Rightarrow>
                 \<lparr> returned = Inr (Fetched parsed), requests = [request_of settings],
                   storage_after = setCache B E parsed repoUrl \<rparr>))"

text \<open>
  \<^verbatim>\<open>getGitHubFileUrl\<close>, a caller of \<^verbatim>\<open>getSettings\<close>: without settings it returns
  \<^verbatim>\<open>null\<close>. The settings are whatever value was stored; a template literal converts
  each part as \<^verbatim>\<open>String\<close> does.
\<close>

definition getGitHubFileUrl :: "'n builtins \<Rightarrow> 'n env \<Rightarrow> string \<Rightarrow> js_error + 'n jsval" where
  "getGitHubFileUrl B E filePath =
     bindE (getSettings B E) (\<lambda>settings.
       if \<not> truthy B settings then Inr JNull
       else
         bindE (js_String B (getprop settings ''repoOwner'')) (\<lambda>ow.
         bindE (js_String B (getprop settings ''repoName'')) (\<lambda>nm.
         bindE (js_String B (getprop settings ''branch'')) (\<lambda>br.
           Inr (JStr (''https://github.com/'' @ ow @ ''/'' @ nm @ ''/blob/'' @ br @ ''/'' @
                      filePath))))))"

section \<open>Notions of the specification\<close>

text \<open>
  The cache entry in the storage, when the stored text decodes to one: an object with
  a \<^verbatim>\<open>lastFetched\<close> that is a date and a \<^verbatim>\<open>repoUrl\<close> that is a string, as
  \<^verbatim>\<open>setCache\<close> writes it. The triple is the model list, the time of the last fetch
  in milliseconds and the repository identity.
\<close>

definition stored_entry :: "'n builtins \<Rightarrow> 'n env \<Rightarrow> ('n jsval \<times> int \<times> string) option" where
  "stored_entry B E =
     (case storage E CACHE_KEY of
        None \<Rightarrow> None
      | Some stored \<Rightarrow>
          if stored = [] then None
          else
            (case JSON_parse B stored of
               Some (JObj ps) \<Rightarrow>
                 (case (map_of ps ''lastFetched'', map_of ps ''repoUrl'') of
                    (Some lf, Some (JStr r)) \<Rightarrow>
                      (case new_Date_getTime B lf of
                         Inr (Some t) \<Rightarrow> Some (getprop (JObj ps) ''models'', t, r)
                       | _ \<Rightarrow> None)
                  | _ \<Rightarrow> None)
             | _ \<Rightarrow> None))"

text \<open>
  What the JSON text of a value decodes to: a property whose value is \<^verbatim>\<open>undefined\<close> is
  not written, an \<^verbatim>\<open>undefined\<close> array element is written as \<^verbatim>\<open>null\<close>, and a number is
  read back as the host's \<open>JSON_number\<close> says, which is the first argument here.
\<close>

fun json_image :: "('n \<Rightarrow> 'n jsval) \<Rightarrow> 'n jsval \<Rightarrow> 'n jsval" where
  "json_image num (JNum n) = num n"
| "json_image num (JArr xs) =
     JArr (map (\<lambda>x. if x = JUndefined then JNull else json_image num x) xs)"
| "json_image num (JObj ps) =
     JObj (map (\<lambda>p. (fst p, json_image num (snd p))) (filter (\<lambda>p. snd p \<noteq> JUndefined) ps))"
| "json_image num v = v"





text \<open>
  A string field \<open>s\<close> of the result comes from the source value \<open>v\<close> with the default
  \<open>d\<close>: it is the string conversion of \<open>v\<close> when \<open>v\<close> is truthy, and \<open>d\<close> otherwise.
\<close>

definition coerced_or :: "'n builtins \<Rightarrow> 'n jsval \<Rightarrow> string \<Rightarrow> string \<Rightarrow> bool" where
  "coerced_or B v d s \<longleftrightarrow> (if truthy B v then js_String B v = Inr s else s = d)"

section \<open>A sample host\<close>

text \<open>
  A small host on which the functions can be run: its numbers are integers, its JSON
  codec knows the texts of a table, its dates the timestamps of a table.
\<close>

definition sample_model :: "int Model" where
  "sample_model =
     \<lparr> model_id = ''m1'', name = ''Foo'', version = ''2.1.0'', description = '''',
       framework = ''PyTorch'', status = ''production'', owner = ''Sarah Chen'',
       createdAt = ''2024-08-15T10:30:00Z'', updatedAt = ''2024-12-01T14:22:00Z'',
       metrics = Some \<lparr> accuracy = Some 1, latency = None \<rparr>,
       files = None \<rparr>"

definition sample_entry :: "int jsval" where
  "sample_entry =
     JObj [(''models'', JArr [json_image JNum (model_to_js sample_model)]),
           (''lastFetched'', JStr ''2024-12-01T14:22:00.000Z''),
           (''repoUrl'', JStr ''acme/models'')]"

text \<open>A cache entry whose \<^verbatim>\<open>lastFetched\<close> is a string that is no date.\<close>

definition undated_entry_text :: string where
  "undated_entry_text =
     ''{\"models\":[],\"lastFetched\":\"yesterday\",\"repoUrl\":\"acme/models\"}''"

definition undated_entry :: "int jsval" where
  "undated_entry =
     JObj [(''models'', JArr []), (''lastFetched'', JStr ''yesterday''),
           (''repoUrl'', JStr ''acme/models'')]"

definition sample_json :: "(string \<times> int jsval) list" where
  "sample_json =
     [(''null'', JNull),
      (''[null]'', JArr [JNull]),
      (''{\"models\":7}'', JObj [(''models'', JNum 7)]),
      (''entry'', sample_entry),
      (''models'', JArr [json_image JNum (model_to_js sample_model)]),
      (undated_entry_text, undated_entry)]"

definition sample_stringify :: "int jsval \<Rightarrow> string" where
  "sample_stringify v =
     (if v = JArr [model_to_js sample_model] then ''models''
      else if json_image JNum v = sample_entry then ''entry''
      else ''null'')"

definition sample_dates :: "(int jsval \<times> int) list" where
  "sample_dates = [(JStr ''2024-12-01T14:22:00.000Z'', 1733062920000)]"

definition sample_host :: "int builtins" where
  "sample_host =
     \<lparr> parseFloat = (\<lambda>s. if s = ''0'' then 0 else 1),
       Number_toString = (\<lambda>n. if n < 0 then ''-'' @ show_nat (nat (- n)) else show_nat (nat n)),
       Number_falsy = (\<lambda>n. n = 0),
       JSON_parse = map_of sample_json,
       JSON_stringify = sample_stringify,
       JSON_number = JNum,
       Date_getTime = map_of sample_dates,
       toISOString = (\<lambda>t. ''2024-12-01T14:22:00.000Z''),
       atob = (\<lambda>v. case v of JStr s \<Rightarrow> Some s | _ \<Rightarrow> None) \<rparr>"

definition sample_settings :: GitHubSettings where
  "sample_settings =
     \<lparr> repoOwner = ''acme'', repoName = ''models'', branch = ''main'',
       configPath = ''models.yaml'', token = '''' \<rparr>"

text \<open>An environment with the given storage, whose clock reads the given time at every
  point, and whose network answers every request with the given status and no body.\<close>

definition sample_env :: "(string \<rightharpoonup> string) \<Rightarrow> int \<Rightarrow> nat \<Rightarrow> int env" where
  "sample_env st t code =
     \<lparr> storage = st, Date_now = t, Date_normalize = (\<lambda>i. t), Date_setCache = t,
       fetch = (\<lambda>req. Inr \<lparr> resp_status = code, resp_json = Inl SyntaxError \<rparr>) \<rparr>"

subsection \<open>A host with an infinite number\<close>








section \<open>Properties\<close>

lemmas yaml_defs = parseYaml_def yaml_line_def yaml_init_def yaml_finish_def trim_def
  empty_object_def finished_def
  is_space_def startsWith_def includes_chr_def indexOf_def inline_field_def parseYamlValue_def
  endsWith_def matches_number_def is_digit_def all_digits1_def obj_set_def attach_nested_def
  nested_open_def nested_pending_def slice_1_m1_def Let_def

lemmas normalize_defs = normalizeModel_def bindE_def or_else_def metrics_of_def files_of_def
  validStatuses_def

lemmas config_defs = parseConfigFile_def isYaml_def endsWith_def JSON_parse_E_def
  modelsArray_of_def MalformedConfig_def

subsection \<open>The decoder scenario\<close>

text \<open>
  Claim C4. The six lines \<^verbatim>\<open>- id: m1\<close>, \<^verbatim>\<open>  name: Foo\<close>, \<^verbatim>\<open>  metrics:\<close>,
  \<^verbatim>\<open>    accuracy: 0.9\<close>, \<^verbatim>\<open>- id: m2\<close>, \<^verbatim>\<open>  status: bogus\<close> decode to exactly two
  records. The first has the nested mapping \<^verbatim>\<open>metrics\<close> whose \<^verbatim>\<open>accuracy\<close> is the number
  that \<^verbatim>\<open>parseFloat\<close> reads from \<^verbatim>\<open>0.9\<close>. Normalizing the second (at its index 1) gives
  the status \<^verbatim>\<open>development\<close>, and \<^verbatim>\<open>bogus\<close> is not one of the valid statuses.
\<close>

theorem decoder_scenario:
  "parseYaml B (join [''- id: m1'', ''  name: Foo'', ''  metrics:'', ''    accuracy: 0.9'',
                      ''- id: m2'', ''  status: bogus''] ''\<newline>'') =
     JArr [JObj [(''id'', JStr ''m1''), (''name'', JStr ''Foo''),
                 (''metrics'', JObj [(''accuracy'', JNum (parseFloat B ''0.9''))])],
           JObj [(''id'', JStr ''m2''), (''status'', JStr ''bogus'')]] \<and>
   normalizeModel B now (JObj [(''id'', JStr ''m2''), (''status'', JStr ''bogus'')]) 1 =
     Inr \<lparr> model_id = ''m2'', name = ''Unnamed Model'', version = ''1.0.0'', description = [],
           framework = ''Unknown'', status = ''development'', owner = ''Unknown'',
           createdAt = now, updatedAt = now, metrics = None, files = None \<rparr> \<and>
   ''bogus'' \<notin> set validStatuses"
  by (simp add: yaml_defs normalize_defs)

subsection \<open>Dash lines without an inline field\<close>

text \<open>
  Claim C5 says that a dash line carrying no inline key-value starts an empty record, and
  that two such lines in a row give two records. The decoder trims a line before it
  tests for the prefix \<^verbatim>\<open>"- "\<close>, so a line holding only the dash, with or without
  the space after it, never starts a record: two such lines decode to no record at all,
  the fields after such a line are lost when no record is open, and they are written
  into the previous record when one is.
\<close>

theorem bare_dash_lines_are_skipped:
  "parseYaml B (join [''- '', ''- ''] ''\<newline>'') = JArr [] \<and>
   parseYaml B (join [''-'', ''-''] ''\<newline>'') = JArr [] \<and>
   parseYaml B (join [''- '', ''  id: m1''] ''\<newline>'') = JArr [] \<and>
   parseYaml B (join [''-'', ''  id: m1''] ''\<newline>'') = JArr [] \<and>
   parseYaml B (join [''- id: a'', ''-'', ''  id: b''] ''\<newline>'') =
     JArr [JObj [(''id'', JStr ''b'')]]"
  by (simp add: yaml_defs)

text \<open>
  A dash followed by text that is no key-value does start an empty record.
\<close>

lemma dash_with_text_starts_empty_record:
  "parseYaml B (join [''- x'', ''- y'', ''  id: m1''] ''\<newline>'') =
     JArr [JObj [], JObj [(''id'', JStr ''m1'')]]"
  by (simp add: yaml_defs)

text \<open>
  The key \<^verbatim>\<open>__proto__\<close> in a nested section: a scalar assigned to it is ignored while
  the prototype is there, and stored as an own property once \<^verbatim>\<open>null\<close> has removed the
  prototype, which makes the section non-empty.
\<close>

lemma proto_key_in_nested_section:
  "parseYaml B (join [''- id: a'', ''  metrics:'', ''    __proto__: x''] ''\<newline>'') =
     JArr [JObj [(''id'', JStr ''a'')]] \<and>
   parseYaml B (join [''- id: a'', ''  metrics:'', ''    __proto__: null'',
                      ''    __proto__: x''] ''\<newline>'') =
     JArr [JObj [(''id'', JStr ''a''), (''metrics'', JObj [(''__proto__'', JStr ''x'')])]]"
  by (simp add: yaml_defs)

subsection \<open>Elements and contents that are null\<close>

text \<open>
  Claim C3 says that \<^verbatim>\<open>normalizeModel\<close> never raises, whatever element of the record list
  it is given. On the element \<^verbatim>\<open>null\<close> its first property read raises a TypeError, so
  the JSON config \<^verbatim>\<open>[null]\<close> fails the whole fetch with it.
\<close>

theorem normalizeModel_null_raises:
  "normalizeModel B now JNull index = Inl TypeError \<and>
   parseConfigFile sample_host clock ''[null]'' ''models.json'' = Inl TypeError"
  by (simp add: normalize_defs config_defs sample_host_def sample_json_def)

text \<open>
  Claim C8 says that decoded content which is neither an array nor an object with an
  array under \<^verbatim>\<open>models\<close> fails with the error "Config file must contain an array of
  models". For the JSON config \<^verbatim>\<open>null\<close> the read of \<^verbatim>\<open>data.models\<close> raises a TypeError
  before that test is reached; an object whose \<^verbatim>\<open>models\<close> is a number does fail with
  the error of the claim.
\<close>

theorem null_config_raises_TypeError:
  "parseConfigFile sample_host clock ''null'' ''models.json'' = Inl TypeError \<and>
   Inl TypeError \<noteq> (Inl MalformedConfig :: js_error + int Model list) \<and>
   parseConfigFile sample_host clock ''{\"models\":7}'' ''models.json'' = Inl MalformedConfig"
  by (simp add: normalize_defs config_defs sample_host_def sample_json_def)

subsection \<open>The cache in front of the fetch\<close>

lemmas sample_defs = sample_host_def sample_env_def sample_settings_def sample_json_def
  sample_dates_def sample_entry_def sample_model_def

lemma fetch_on_miss:
  assumes "getCache B E = Inr c"
      and "\<not> (truthy B c \<and> getprop c ''repoUrl'' = JStr (repoOwner settings @ ''/'' @ repoName settings))"
  shows "requests (fetchModelsFromGitHub B E settings) = [request_of settings]"
    and "returned (fetchModelsFromGitHub B E settings) =
           map_sum (\<lambda>e. e) Fetched (bindE (fetch E (request_of settings)) (handle_response B E settings))"
    and "returned (fetchModelsFromGitHub B E settings) \<noteq> Inr (FromCache v)"
  using assms by (auto simp: fetchModelsFromGitHub_def Let_def split: sum.splits)

lemma fetch_on_hit:
  assumes "getCache B E = Inr c"
      and "truthy B c" and "getprop c ''repoUrl'' = JStr (repoOwner settings @ ''/'' @ repoName settings)"
  shows "fetchModelsFromGitHub B E settings =
           \<lparr> returned = Inr (FromCache (getprop c ''models'')), requests = [], storage_after = storage E \<rparr>"
  using assms by (simp add: fetchModelsFromGitHub_def Let_def)

lemma try_catch_returns: "\<exists>v. try_catch body (Inr x) = Inr v"
  by (cases body) (simp_all add: try_catch_def)

lemma getCache_total: "\<exists>v. getCache B E = Inr v"
  by (cases "storage E CACHE_KEY") (simp_all add: getCache_def try_catch_returns)

lemma getCache_absent: "storage E CACHE_KEY = None \<Longrightarrow> getCache B E = Inr JNull"
  by (simp add: getCache_def)

lemma getCache_unparseable:
  "storage E CACHE_KEY = Some s \<Longrightarrow> JSON_parse B s = None \<Longrightarrow> getCache B E = Inr JNull"
  by (simp add: getCache_def try_catch_def bindE_def JSON_parse_E_def)

lemma stored_entryD:
  assumes "stored_entry B E = Some (ms, t, r)"
  obtains stored ps lf where
    "storage E CACHE_KEY = Some stored" "stored \<noteq> []" "JSON_parse B stored = Some (JObj ps)"
    "map_of ps ''lastFetched'' = Some lf" "map_of ps ''repoUrl'' = Some (JStr r)"
    "new_Date_getTime B lf = Inr (Some t)" "getprop (JObj ps) ''models'' = ms"
  using assms
  by (auto simp: stored_entry_def split: option.splits if_splits jsval.splits sum.splits)

lemma getCache_entry:
  assumes "stored_entry B E = Some (ms, t, r)"
  shows "\<exists>ps. getCache B E = Inr (if Date_now E - t > CACHE_TTL then JNull else JObj ps) \<and>
              getprop (JObj ps) ''repoUrl'' = JStr r \<and> getprop (JObj ps) ''models'' = ms"
proof -
  from assms obtain stored ps lf where
    st: "storage E CACHE_KEY = Some stored" "stored \<noteq> []" "JSON_parse B stored = Some (JObj ps)"
    and lf: "map_of ps ''lastFetched'' = Some lf" "new_Date_getTime B lf = Inr (Some t)"
    and r: "map_of ps ''repoUrl'' = Some (JStr r)"
    and m: "getprop (JObj ps) ''models'' = ms"
    by (rule stored_entryD)
  have "getCache B E = Inr (if Date_now E - t > CACHE_TTL then JNull else JObj ps)"
    using st lf by (simp add: getCache_def try_catch_def bindE_def JSON_parse_E_def expired_def)
  moreover have "getprop (JObj ps) ''repoUrl'' = JStr r" using r by simp
  ultimately show ?thesis using m by blast
qed

text \<open>
  An entry whose \<^verbatim>\<open>lastFetched\<close> cannot be converted to a primitive makes
  \<^verbatim>\<open>new Date\<close> raise; \<^verbatim>\<open>getCache\<close> catches that, and the entry is a miss.
\<close>

lemma getCache_date_raises:
  assumes "storage E CACHE_KEY = Some s" and "s \<noteq> []"
      and "JSON_parse B s = Some cache" and "js_get cache ''lastFetched'' = Inr lf"
      and "new_Date_getTime B lf = Inl e"
  shows "getCache B E = Inr JNull"
  using assms
  by (simp add: getCache_def try_catch_def bindE_def JSON_parse_E_def expired_def)

lemma new_Date_of_object_with_toString:
  "new_Date_getTime B (JObj [(''toString'', v)]) = Inl TypeError"
  by (simp add: new_Date_getTime_def bindE_def)

text \<open>
  For an entry whose \<^verbatim>\<open>lastFetched\<close> is a date: when its \<^verbatim>\<open>repoUrl\<close> is
  \<^verbatim>\<open>owner/name\<close> of the settings and its age, the clock minus \<^verbatim>\<open>lastFetched\<close>, is at
  most the five minutes of the TTL, the call returns the entry's model list and issues
  no request. When the entry is older, or is one of another repository, or when there is
  no entry, exactly one request is issued, the one for the configured file, and nothing
  of the cache is returned.
\<close>

lemma cache_policy:
  "(\<forall>ms t r. stored_entry B E = Some (ms, t, r) \<longrightarrow>
      (if r = repoOwner settings @ ''/'' @ repoName settings \<and> Date_now E - t \<le> CACHE_TTL
       then returned (fetchModelsFromGitHub B E settings) = Inr (FromCache ms) \<and>
            requests (fetchModelsFromGitHub B E settings) = []
       else requests (fetchModelsFromGitHub B E settings) = [request_of settings] \<and>
            (\<forall>v. returned (fetchModelsFromGitHub B E settings) \<noteq> Inr (FromCache v)))) \<and>
   (storage E CACHE_KEY = None \<longrightarrow>
      requests (fetchModelsFromGitHub B E settings) = [request_of settings] \<and>
      (\<forall>v. returned (fetchModelsFromGitHub B E settings) \<noteq> Inr (FromCache v)))"
proof (intro conjI allI impI)
  fix ms t r
  assume entry: "stored_entry B E = Some (ms, t, r)"
  from getCache_entry [OF entry] obtain ps where
    c: "getCache B E = Inr (if Date_now E - t > CACHE_TTL then JNull else JObj ps)"
    and r: "getprop (JObj ps) ''repoUrl'' = JStr r"
    and m: "getprop (JObj ps) ''models'' = ms"
    by blast
  show "if r = repoOwner settings @ ''/'' @ repoName settings \<and> Date_now E - t \<le> CACHE_TTL
       then returned (fetchModelsFromGitHub B E settings) = Inr (FromCache ms) \<and>
            requests (fetchModelsFromGitHub B E settings) = []
       else requests (fetchModelsFromGitHub B E settings) = [request_of settings] \<and>
            (\<forall>v. returned (fetchModelsFromGitHub B E settings) \<noteq> Inr (FromCache v))"
  proof (cases "r = repoOwner settings @ ''/'' @ repoName settings \<and> Date_now E - t \<le> CACHE_TTL")
    case True
    then have "getCache B E = Inr (JObj ps)" using c by simp
    from fetch_on_hit [OF this] r m True show ?thesis by simp
  next
    case False
    have "\<not> (truthy B (if Date_now E - t > CACHE_TTL then JNull else JObj ps) \<and>
             getprop (if Date_now E - t > CACHE_TTL then JNull else JObj ps) ''repoUrl'' =
               JStr (repoOwner settings @ ''/'' @ repoName settings))"
      using False r by auto
    from fetch_on_miss(1,3) [OF c this] False show ?thesis by simp
  qed
next
  assume "storage E CACHE_KEY = None"
  then have c: "getCache B E = Inr JNull" by (rule getCache_absent)
  have "\<not> (truthy B JNull \<and> getprop JNull ''repoUrl'' = JStr (repoOwner settings @ ''/'' @ repoName settings))"
    by simp
  from fetch_on_miss(1) [OF c this]
  show "requests (fetchModelsFromGitHub B E settings) = [request_of settings]" .
next
  fix v
  assume "storage E CACHE_KEY = None"
  then have c: "getCache B E = Inr JNull" by (rule getCache_absent)
  have "\<not> (truthy B JNull \<and> getprop JNull ''repoUrl'' = JStr (repoOwner settings @ ''/'' @ repoName settings))"
    by simp
  from fetch_on_miss(3) [OF c this]
  show "returned (fetchModelsFromGitHub B E settings) \<noteq> Inr (FromCache v)" .
qed

lemma cache_policy_sample:
  "stored_entry sample_host (sample_env [CACHE_KEY \<mapsto> ''entry''] 1733062920000 404) =
     Some (JArr [json_image JNum (model_to_js sample_model)], 1733062920000, ''acme/models'') \<and>
   fetchModelsFromGitHub sample_host
       (sample_env [CACHE_KEY \<mapsto> ''entry''] (1733062920000 + CACHE_TTL) 404) sample_settings =
     \<lparr> returned = Inr (FromCache (JArr [json_image JNum (model_to_js sample_model)])),
       requests = [], storage_after = [CACHE_KEY \<mapsto> ''entry''] \<rparr> \<and>
   requests (fetchModelsFromGitHub sample_host
       (sample_env [CACHE_KEY \<mapsto> ''entry''] (1733062920000 + CACHE_TTL + 1) 404) sample_settings) =
     [request_of sample_settings] \<and>
   requests (fetchModelsFromGitHub sample_host
       (sample_env [CACHE_KEY \<mapsto> ''entry''] 1733062920000 404)
       (sample_settings \<lparr> repoName := ''other'' \<rparr>)) =
     [request_of (sample_settings \<lparr> repoName := ''other'' \<rparr>)] \<and>
   requests (fetchModelsFromGitHub sample_host (sample_env Map.empty 1733062920000 404)
       sample_settings) = [request_of sample_settings]"
  using
    cache_policy [of sample_host "sample_env [CACHE_KEY \<mapsto> ''entry''] (1733062920000 + CACHE_TTL) 404" sample_settings]
    cache_policy [of sample_host "sample_env [CACHE_KEY \<mapsto> ''entry''] (1733062920000 + CACHE_TTL + 1) 404" sample_settings]
    cache_policy [of sample_host "sample_env [CACHE_KEY \<mapsto> ''entry''] 1733062920000 404" "sample_settings \<lparr> repoName := ''other'' \<rparr>"]
    cache_policy [of sample_host "sample_env Map.empty 1733062920000 404" sample_settings]
  by (simp add: stored_entry_def sample_defs CACHE_KEY_def CACHE_TTL_def fetchModelsFromGitHub_def
      getCache_def try_catch_def bindE_def JSON_parse_E_def expired_def new_Date_getTime_def)

text \<open>
  Claim C1 says that the cached list is returned only while the age of the entry is
  within the TTL, and that in every other case a request is issued. An entry whose
  \<^verbatim>\<open>lastFetched\<close> is a string that is no date has the age NaN. The test
  \<^verbatim>\<open>Date.now() - lastFetched > CACHE_TTL\<close> is false of it at every time, so the entry
  never expires: whatever the clock reads, its list is returned and no request is
  issued.
\<close>

theorem undated_entry_never_expires:
  "JSON_parse sample_host undated_entry_text = Some undated_entry \<and>
   new_Date_getTime sample_host (JStr ''yesterday'') = Inr None \<and>
   fetchModelsFromGitHub sample_host
       (sample_env [CACHE_KEY \<mapsto> undated_entry_text] t 404) sample_settings =
     \<lparr> returned = Inr (FromCache (JArr [])), requests = [],
       storage_after = [CACHE_KEY \<mapsto> undated_entry_text] \<rparr>"
proof -
  have p: "JSON_parse sample_host undated_entry_text = Some undated_entry"
    by (simp add: sample_host_def sample_json_def undated_entry_text_def)
  have d: "new_Date_getTime sample_host (JStr ''yesterday'') = Inr None"
    by (simp add: new_Date_getTime_def sample_host_def sample_dates_def)
  have n: "undated_entry_text \<noteq> []"
    by (simp add: undated_entry_text_def)
  have l: "js_get undated_entry ''lastFetched'' = Inr (JStr ''yesterday'')"
    by (simp add: undated_entry_def)
  have c: "getCache sample_host (sample_env [CACHE_KEY \<mapsto> undated_entry_text] t 404) =
           Inr undated_entry"
    using p d n l
    by (simp add: getCache_def sample_env_def try_catch_def bindE_def JSON_parse_E_def
        expired_def)
  have "fetchModelsFromGitHub sample_host
       (sample_env [CACHE_KEY \<mapsto> undated_entry_text] t 404) sample_settings =
     \<lparr> returned = Inr (FromCache (getprop undated_entry ''models'')), requests = [],
       storage_after = storage (sample_env [CACHE_KEY \<mapsto> undated_entry_text] t 404) \<rparr>"
    by (rule fetch_on_hit [OF c]) (simp_all add: undated_entry_def sample_settings_def)
  then have "fetchModelsFromGitHub sample_host
       (sample_env [CACHE_KEY \<mapsto> undated_entry_text] t 404) sample_settings =
     \<lparr> returned = Inr (FromCache (JArr [])), requests = [],
       storage_after = [CACHE_KEY \<mapsto> undated_entry_text] \<rparr>"
    by (simp add: undated_entry_def sample_env_def)
  with p d show ?thesis by blast
qed

subsection \<open>Responses that are not successful\<close>

lemma handle_response_not_ok:
  assumes "\<not> ok response"
  shows "handle_response B E settings response =
           Inl (if resp_status response = 404 then ConfigNotFound (configPath settings)
                else if resp_status response = 401 then InvalidCredential
                else if resp_status response = 403 then RateLimitedOrDenied
                else TransportError (resp_status response))"
  using assms by (simp add: handle_response_def)

lemma request_issued_iff_miss:
  assumes "getCache B E = Inr c"
      and "requests (fetchModelsFromGitHub B E settings) = [request_of settings]"
  shows "\<not> (truthy B c \<and>
            getprop c ''repoUrl'' = JStr (repoOwner settings @ ''/'' @ repoName settings))"
proof
  assume "truthy B c \<and>
          getprop c ''repoUrl'' = JStr (repoOwner settings @ ''/'' @ repoName settings)"
  then have "fetchModelsFromGitHub B E settings =
           \<lparr> returned = Inr (FromCache (getprop c ''models'')), requests = [],
             storage_after = storage E \<rparr>"
    using fetch_on_hit [OF assms(1)] by blast
  then have "requests (fetchModelsFromGitHub B E settings) = []" by simp
  with assms(2) show False by simp
qed

text \<open>
  Claim C2. When a request was issued and its response is not successful, the call fails:
  on status 404 with the error "Config file not found: " followed by the configured
  path (ConfigNotFound), on 401 with "Invalid GitHub token" (InvalidCredential), on 403
  with "Rate limited or access denied" (RateLimitedOrDenied), and on every other status
  with "GitHub API error: " followed by the status code (TransportError).
\<close>

theorem fetch_failure_classes:
  assumes "requests (fetchModelsFromGitHub B E settings) = [request_of settings]"
      and "fetch E (request_of settings) = Inr response"
      and "\<not> ok response"
  shows "returned (fetchModelsFromGitHub B E settings) =
           Inl (if resp_status response = 404
                then Error (''Config file not found: '' @ configPath settings)
                else if resp_status response = 401 then Error ''Invalid GitHub token''
                else if resp_status response = 403 then Error ''Rate limited or access denied''
                else Error (''GitHub API error: '' @ show_nat (resp_status response)))"
proof -
  obtain c where c: "getCache B E = Inr c" using getCache_total by blast
  have miss: "\<not> (truthy B c \<and>
            getprop c ''repoUrl'' = JStr (repoOwner settings @ ''/'' @ repoName settings))"
    using c assms(1) by (rule request_issued_iff_miss)
  have "bindE (fetch E (request_of settings)) (handle_response B E settings) =
          handle_response B E settings response"
    using assms(2) by (simp add: bindE_def)
  then have "returned (fetchModelsFromGitHub B E settings) =
          map_sum (\<lambda>e. e) Fetched (handle_response B E settings response)"
    using fetch_on_miss(2) [OF c miss] by simp
  then show ?thesis
    unfolding handle_response_not_ok [OF assms(3)]
    by (simp add: ConfigNotFound_def InvalidCredential_def RateLimitedOrDenied_def
        TransportError_def)
qed


theorem fetch_failure_classes_witness:
  "returned (fetchModelsFromGitHub sample_host (sample_env Map.empty 0 404) sample_settings) =
     Inl (Error ''Config file not found: models.yaml'') \<and>
   returned (fetchModelsFromGitHub sample_host (sample_env Map.empty 0 401) sample_settings) =
     Inl (Error ''Invalid GitHub token'') \<and>
   returned (fetchModelsFromGitHub sample_host (sample_env Map.empty 0 403) sample_settings) =
     Inl (Error ''Rate limited or access denied'') \<and>
   returned (fetchModelsFromGitHub sample_host (sample_env Map.empty 0 500) sample_settings) =
     Inl (Error ''GitHub API error: 500'')"
proof -
  have r: "requests (fetchModelsFromGitHub sample_host (sample_env Map.empty 0 code)
             sample_settings) = [request_of sample_settings]" for code
    using fetch_on_miss(1) [of sample_host "sample_env Map.empty 0 code" JNull sample_settings]
    by (simp add: getCache_def sample_env_def)
  have f: "fetch (sample_env Map.empty 0 code) (request_of sample_settings) =
           Inr \<lparr> resp_status = code, resp_json = Inl SyntaxError \<rparr>" for code
    by (simp add: sample_env_def)
  have n: "\<not> ok \<lparr> resp_status = 404, resp_json = Inl SyntaxError :: js_error + int jsval \<rparr>"
          "\<not> ok \<lparr> resp_status = 401, resp_json = Inl SyntaxError :: js_error + int jsval \<rparr>"
          "\<not> ok \<lparr> resp_status = 403, resp_json = Inl SyntaxError :: js_error + int jsval \<rparr>"
          "\<not> ok \<lparr> resp_status = 500, resp_json = Inl SyntaxError :: js_error + int jsval \<rparr>"
    by (simp_all add: ok_def)
  have s: "show_nat 500 = ''500''" by code_simp
  have p: "configPath sample_settings = ''models.yaml''" by (simp add: sample_settings_def)
  have a: "returned (fetchModelsFromGitHub sample_host (sample_env Map.empty 0 404)
             sample_settings) = Inl (Error ''Config file not found: models.yaml'')"
    using fetch_failure_classes [OF r f n(1)] p by simp
  have b: "returned (fetchModelsFromGitHub sample_host (sample_env Map.empty 0 401)
             sample_settings) = Inl (Error ''Invalid GitHub token'')"
    using fetch_failure_classes [OF r f n(2)] by simp
  have c: "returned (fetchModelsFromGitHub sample_host (sample_env Map.empty 0 403)
             sample_settings) = Inl (Error ''Rate limited or access denied'')"
    using fetch_failure_classes [OF r f n(3)] by simp
  have d: "returned (fetchModelsFromGitHub sample_host (sample_env Map.empty 0 500)
             sample_settings) = Inl (Error ''GitHub API error: 500'')"
    using fetch_failure_classes [OF r f n(4)] s by simp
  from a b c d show ?thesis by blast
qed

subsection \<open>Stored values that cannot be read\<close>

lemma getSettings_total: "\<exists>v. getSettings B E = Inr v"
  by (cases "storage E SETTINGS_KEY")
     (auto simp: getSettings_def try_catch_def split: sum.splits)

lemma getSettings_absent: "storage E SETTINGS_KEY = None \<Longrightarrow> getSettings B E = Inr JNull"
  by (simp add: getSettings_def)

lemma getSettings_unparseable:
  "storage E SETTINGS_KEY = Some s \<Longrightarrow> JSON_parse B s = None \<Longrightarrow> getSettings B E = Inr JNull"
  by (simp add: getSettings_def try_catch_def JSON_parse_E_def)

lemma fetch_when_cache_null:
  assumes "getCache B E = Inr JNull"
  shows "requests (fetchModelsFromGitHub B E settings) = [request_of settings]"
proof -
  have "\<not> (truthy B JNull \<and>
           getprop JNull ''repoUrl'' = JStr (repoOwner settings @ ''/'' @ repoName settings))"
    by simp
  from fetch_on_miss(1) [OF assms this] show ?thesis .
qed

text \<open>
  Claim C10. \<^verbatim>\<open>getSettings\<close> and \<^verbatim>\<open>getCache\<close> never raise. When the stored settings are
  absent or are not parseable as JSON, \<^verbatim>\<open>getSettings\<close> returns \<^verbatim>\<open>null\<close>, and its caller
  \<^verbatim>\<open>getGitHubFileUrl\<close> answers as when nothing is configured. When the stored cache
  value is absent or not parseable, \<^verbatim>\<open>getCache\<close> returns \<^verbatim>\<open>null\<close> and the fetch issues a
  request, as on a cache miss.
\<close>

theorem stored_values_never_raise:
  "(\<exists>v. getSettings B E = Inr v) \<and> (\<exists>v. getCache B E = Inr v) \<and>
   ((storage E SETTINGS_KEY = None \<or>
     (\<exists>s. storage E SETTINGS_KEY = Some s \<and> JSON_parse B s = None)) \<longrightarrow>
      getSettings B E = Inr JNull \<and> getGitHubFileUrl B E filePath = Inr JNull) \<and>
   ((storage E CACHE_KEY = None \<or>
     (\<exists>s. storage E CACHE_KEY = Some s \<and> JSON_parse B s = None)) \<longrightarrow>
      getCache B E = Inr JNull \<and>
      requests (fetchModelsFromGitHub B E settings) = [request_of settings])"
proof -
  have a: "getSettings B E = Inr JNull \<and> getGitHubFileUrl B E filePath = Inr JNull"
    if "storage E SETTINGS_KEY = None \<or>
        (\<exists>s. storage E SETTINGS_KEY = Some s \<and> JSON_parse B s = None)"
  proof -
    from that have s: "getSettings B E = Inr JNull"
      using getSettings_absent getSettings_unparseable by blast
    then have "getGitHubFileUrl B E filePath = Inr JNull"
      by (simp add: getGitHubFileUrl_def bindE_def)
    with s show ?thesis by simp
  qed
  have b: "getCache B E = Inr JNull \<and>
           requests (fetchModelsFromGitHub B E settings) = [request_of settings]"
    if "storage E CACHE_KEY = None \<or>
        (\<exists>s. storage E CACHE_KEY = Some s \<and> JSON_parse B s = None)"
  proof -
    from that have c: "getCache B E = Inr JNull"
      using getCache_absent getCache_unparseable by blast
    with fetch_when_cache_null [OF c] show ?thesis by simp
  qed
  from a b getSettings_total getCache_total show ?thesis by blast
qed


theorem stored_values_never_raise_witness:
  "JSON_parse sample_host ''{oops'' = None \<and>
   getSettings sample_host
     (sample_env [SETTINGS_KEY \<mapsto> ''{oops'', CACHE_KEY \<mapsto> ''{oops''] 0 404) = Inr JNull \<and>
   getGitHubFileUrl sample_host
     (sample_env [SETTINGS_KEY \<mapsto> ''{oops'', CACHE_KEY \<mapsto> ''{oops''] 0 404) ''README.md'' =
     Inr JNull \<and>
   getCache sample_host
     (sample_env [SETTINGS_KEY \<mapsto> ''{oops'', CACHE_KEY \<mapsto> ''{oops''] 0 404) = Inr JNull \<and>
   requests (fetchModelsFromGitHub sample_host
      (sample_env [SETTINGS_KEY \<mapsto> ''{oops'', CACHE_KEY \<mapsto> ''{oops''] 0 404)
      sample_settings) = [request_of sample_settings]"
proof -
  have p: "JSON_parse sample_host ''{oops'' = None"
    by (simp add: sample_host_def sample_json_def undated_entry_text_def)
  have k: "SETTINGS_KEY \<noteq> CACHE_KEY" by (simp add: SETTINGS_KEY_def CACHE_KEY_def)
  have s: "storage (sample_env [SETTINGS_KEY \<mapsto> ''{oops'', CACHE_KEY \<mapsto> ''{oops''] 0 404)
             SETTINGS_KEY = Some ''{oops''"
    using k by (simp add: sample_env_def)
  have c: "storage (sample_env [SETTINGS_KEY \<mapsto> ''{oops'', CACHE_KEY \<mapsto> ''{oops''] 0 404)
             CACHE_KEY = Some ''{oops''"
    by (simp add: sample_env_def)
  from s p have s': "storage (sample_env [SETTINGS_KEY \<mapsto> ''{oops'', CACHE_KEY \<mapsto> ''{oops''] 0 404)
             SETTINGS_KEY = None \<or> (\<exists>t. storage (sample_env [SETTINGS_KEY \<mapsto> ''{oops'', CACHE_KEY \<mapsto> ''{oops''] 0 404)
             SETTINGS_KEY = Some t \<and> JSON_parse sample_host t = None)"
    by blast
  from c p have c': "storage (sample_env [SETTINGS_KEY \<mapsto> ''{oops'', CACHE_KEY \<mapsto> ''{oops''] 0 404)
             CACHE_KEY = None \<or> (\<exists>t. storage (sample_env [SETTINGS_KEY \<mapsto> ''{oops'', CACHE_KEY \<mapsto> ''{oops''] 0 404)
             CACHE_KEY = Some t \<and> JSON_parse sample_host t = None)"
    by blast
  from stored_values_never_raise
      [of sample_host "sample_env [SETTINGS_KEY \<mapsto> ''{oops'', CACHE_KEY \<mapsto> ''{oops''] 0 404"
          "''README.md''" sample_settings] s' c' p
  show ?thesis by blast
qed

subsection \<open>What the normalizer keeps of a record\<close>

lemma bindE_Inr_iff: "bindE m f = Inr y \<longleftrightarrow> (\<exists>x. m = Inr x \<and> f x = Inr y)"
  by (cases m) (simp_all add: bindE_def)

lemma js_get_Inr: "js_get item k = Inr v \<Longrightarrow> v = getprop item k"
  by (cases item) simp_all

lemma normalizeModel_fields:
  assumes "normalizeModel B now item index = Inr m"
  shows "js_String B (or_else B (getprop item ''id'') (JStr (''model-'' @ show_nat index))) = Inr (model_id m)"
    and "js_String B (or_else B (getprop item ''name'') (JStr ''Unnamed Model'')) = Inr (name m)"
    and "js_String B (or_else B (getprop item ''version'') (JStr ''1.0.0'')) = Inr (version m)"
    and "js_String B (or_else B (getprop item ''description'') (JStr [])) = Inr (description m)"
    and "js_String B (or_else B (getprop item ''framework'') (JStr ''Unknown'')) = Inr (framework m)"
    and "js_String B (or_else B (getprop item ''owner'') (JStr ''Unknown'')) = Inr (owner m)"
    and "status m = validateStatus (getprop item ''status'')"
    and "metrics m = metrics_of B (getprop item ''metrics'')"
    and "files m = files_of B (getprop item ''files'')"
  using assms unfolding normalizeModel_def bindE_Inr_iff
  by (auto dest: js_get_Inr)


lemma number_or_undefined_iff: "number_or_undefined v = Some n \<longleftrightarrow> v = JNum n"
  by (cases v) auto

lemma string_or_undefined_iff: "string_or_undefined v = Some s \<longleftrightarrow> v = JStr s"
  by (cases v) auto

text \<open>
  Claim C6, as amended. The metrics group is in the result exactly when the value of
  the record's \<^verbatim>\<open>metrics\<close> is truthy (a key that is absent, or whose value is
  \<^verbatim>\<open>null\<close>, \<^verbatim>\<open>false\<close>, zero, NaN or the empty string, gives no group). Within the group
  \<^verbatim>\<open>accuracy\<close> and \<^verbatim>\<open>latency\<close> are present exactly when their source value is a number,
  and then they are that number. The files group is in the result exactly when the value
  of \<^verbatim>\<open>files\<close> is truthy, and each of its five paths is present exactly when its source
  value is a string, and then it is that string.
\<close>

theorem optional_groups_follow_truthiness:
  assumes "normalizeModel B now item index = Inr m"
  shows "(metrics m \<noteq> None \<longleftrightarrow> truthy B (getprop item ''metrics'')) \<and>
         (\<forall>mt. metrics m = Some mt \<longrightarrow>
            (\<forall>n. accuracy mt = Some n \<longleftrightarrow>
                   getprop (getprop item ''metrics'') ''accuracy'' = JNum n) \<and>
            (\<forall>n. latency mt = Some n \<longleftrightarrow>
                   getprop (getprop item ''metrics'') ''latency'' = JNum n)) \<and>
         (files m \<noteq> None \<longleftrightarrow> truthy B (getprop item ''files'')) \<and>
         (\<forall>fs. files m = Some fs \<longrightarrow>
            (\<forall>s. modelCard fs = Some s \<longleftrightarrow>
                   getprop (getprop item ''files'') ''modelCard'' = JStr s) \<and>
            (\<forall>s. trainingScript fs = Some s \<longleftrightarrow>
                   getprop (getprop item ''files'') ''trainingScript'' = JStr s) \<and>
            (\<forall>s. featureScript fs = Some s \<longleftrightarrow>
                   getprop (getprop item ''files'') ''featureScript'' = JStr s) \<and>
            (\<forall>s. inferenceScript fs = Some s \<longleftrightarrow>
                   getprop (getprop item ''files'') ''inferenceScript'' = JStr s) \<and>
            (\<forall>s. modelFile fs = Some s \<longleftrightarrow>
                   getprop (getprop item ''files'') ''modelFile'' = JStr s))"
proof -
  have mm: "metrics m = metrics_of B (getprop item ''metrics'')"
    and ff: "files m = files_of B (getprop item ''files'')"
    using normalizeModel_fields(8,9) [OF assms] by simp_all
  have 1: "metrics m \<noteq> None \<longleftrightarrow> truthy B (getprop item ''metrics'')"
    unfolding mm by (simp add: metrics_of_def)
  have 2: "(\<forall>n. accuracy mt = Some n \<longleftrightarrow>
                   getprop (getprop item ''metrics'') ''accuracy'' = JNum n) \<and>
            (\<forall>n. latency mt = Some n \<longleftrightarrow>
                   getprop (getprop item ''metrics'') ''latency'' = JNum n)"
    if "metrics m = Some mt" for mt
    using that unfolding mm
    by (auto simp: metrics_of_def number_or_undefined_iff split: if_splits)
  have 3: "files m \<noteq> None \<longleftrightarrow> truthy B (getprop item ''files'')"
    unfolding ff by (simp add: files_of_def)
  have 4: "(\<forall>s. modelCard fs = Some s \<longleftrightarrow>
                   getprop (getprop item ''files'') ''modelCard'' = JStr s) \<and>
            (\<forall>s. trainingScript fs = Some s \<longleftrightarrow>
                   getprop (getprop item ''files'') ''trainingScript'' = JStr s) \<and>
            (\<forall>s. featureScript fs = Some s \<longleftrightarrow>
                   getprop (getprop item ''files'') ''featureScript'' = JStr s) \<and>
            (\<forall>s. inferenceScript fs = Some s \<longleftrightarrow>
                   getprop (getprop item ''files'') ''inferenceScript'' = JStr s) \<and>
            (\<forall>s. modelFile fs = Some s \<longleftrightarrow>
                   getprop (getprop item ''files'') ''modelFile'' = JStr s)"
    if "files m = Some fs" for fs
    using that unfolding ff
    by (auto simp: files_of_def string_or_undefined_iff split: if_splits)
  from 1 2 3 4 show ?thesis by blast
qed


lemma show_nat_0: "show_nat 0 = ''0''"
  by code_simp

theorem optional_groups_follow_truthiness_witness:
  "normalizeModel sample_host ''t''
     (JObj [(''id'', JStr ''m1''),
            (''metrics'', JObj [(''accuracy'', JNum 1), (''latency'', JStr ''fast'')]),
            (''files'', JObj [(''modelCard'', JStr ''README.md''), (''modelFile'', JNum 3)])]) 0 =
     Inr \<lparr> model_id = ''m1'', name = ''Unnamed Model'', version = ''1.0.0'', description = [],
           framework = ''Unknown'', status = ''development'', owner = ''Unknown'',
           createdAt = ''t'', updatedAt = ''t'',
           metrics = Some \<lparr> accuracy = Some 1, latency = None \<rparr>,
           files = Some \<lparr> modelCard = Some ''README.md'', trainingScript = None,
                          featureScript = None, inferenceScript = None, modelFile = None \<rparr> \<rparr> \<and>
   truthy sample_host
     (getprop (JObj [(''id'', JStr ''m1''),
            (''metrics'', JObj [(''accuracy'', JNum 1), (''latency'', JStr ''fast'')]),
            (''files'', JObj [(''modelCard'', JStr ''README.md''), (''modelFile'', JNum 3)])])
        ''metrics'')"
proof -
  have n: "normalizeModel sample_host ''t''
     (JObj [(''id'', JStr ''m1''),
            (''metrics'', JObj [(''accuracy'', JNum 1), (''latency'', JStr ''fast'')]),
            (''files'', JObj [(''modelCard'', JStr ''README.md''), (''modelFile'', JNum 3)])]) 0 =
     Inr \<lparr> model_id = ''m1'', name = ''Unnamed Model'', version = ''1.0.0'', description = [],
           framework = ''Unknown'', status = ''development'', owner = ''Unknown'',
           createdAt = ''t'', updatedAt = ''t'',
           metrics = Some \<lparr> accuracy = Some 1, latency = None \<rparr>,
           files = Some \<lparr> modelCard = Some ''README.md'', trainingScript = None,
                          featureScript = None, inferenceScript = None, modelFile = None \<rparr> \<rparr>"
    by (simp add: normalize_defs)
  from optional_groups_follow_truthiness [OF n] n show ?thesis by simp
qed

text \<open>
  Claim C6 as stated fails: a record that supplies the key \<^verbatim>\<open>metrics\<close> with the value
  \<^verbatim>\<open>null\<close> is normalized to a Model without a metrics group.
\<close>

theorem metrics_key_with_null_counterexample:
  "map_of [(''id'', JStr ''m1''), (''metrics'', JNull :: int jsval)] ''metrics'' = Some JNull \<and>
   normalizeModel sample_host ''t'' (JObj [(''id'', JStr ''m1''), (''metrics'', JNull)]) 0 =
     Inr \<lparr> model_id = ''m1'', name = ''Unnamed Model'', version = ''1.0.0'', description = [],
           framework = ''Unknown'', status = ''development'', owner = ''Unknown'',
           createdAt = ''t'', updatedAt = ''t'', metrics = None, files = None \<rparr>"
  by (simp add: normalize_defs)

lemma coerced_orI: "js_String B (or_else B v (JStr d)) = Inr s \<Longrightarrow> coerced_or B v d s"
  by (auto simp: coerced_or_def or_else_def)

text \<open>
  Claim C7, as amended. For each of the string fields \<^verbatim>\<open>id\<close>, \<^verbatim>\<open>name\<close>, \<^verbatim>\<open>version\<close>,
  \<^verbatim>\<open>description\<close>, \<^verbatim>\<open>framework\<close> and \<^verbatim>\<open>owner\<close> of a Model that \<^verbatim>\<open>normalizeModel\<close>
  returns: when the record's value for the field is truthy, the field is the string
  conversion of that value; when it is falsy (absent, \<^verbatim>\<open>null\<close>, \<^verbatim>\<open>false\<close>, zero, NaN or the
  empty string), the field is its default.
\<close>

theorem string_fields_coerce_truthy_values:
  assumes "normalizeModel B now item index = Inr m"
  shows "coerced_or B (getprop item ''id'') (''model-'' @ show_nat index) (model_id m) \<and>
         coerced_or B (getprop item ''name'') ''Unnamed Model'' (name m) \<and>
         coerced_or B (getprop item ''version'') ''1.0.0'' (version m) \<and>
         coerced_or B (getprop item ''description'') [] (description m) \<and>
         coerced_or B (getprop item ''framework'') ''Unknown'' (framework m) \<and>
         coerced_or B (getprop item ''owner'') ''Unknown'' (owner m)"
  using normalizeModel_fields(1-6) [OF assms] by (blast intro: coerced_orI)

theorem string_fields_coerce_truthy_values_witness:
  "normalizeModel sample_host ''t''
     (JObj [(''id'', JNum 0), (''name'', JStr ''Foo''), (''version'', JBool True),
            (''description'', JNull), (''owner'', JStr [])]) 0 =
     Inr \<lparr> model_id = ''model-0'', name = ''Foo'', version = ''true'', description = [],
           framework = ''Unknown'', status = ''development'', owner = ''Unknown'',
           createdAt = ''t'', updatedAt = ''t'', metrics = None, files = None \<rparr> \<and>
   coerced_or sample_host (JNum 0) ''model-0'' ''model-0'' \<and>
   coerced_or sample_host (JStr ''Foo'') ''Unnamed Model'' ''Foo'' \<and>
   coerced_or sample_host (JBool True) ''1.0.0'' ''true'' \<and>
   coerced_or sample_host JNull [] [] \<and>
   coerced_or sample_host JUndefined ''Unknown'' ''Unknown'' \<and>
   coerced_or sample_host (JStr []) ''Unknown'' ''Unknown''"
proof -
  have n: "normalizeModel sample_host ''t''
     (JObj [(''id'', JNum 0), (''name'', JStr ''Foo''), (''version'', JBool True),
            (''description'', JNull), (''owner'', JStr [])]) 0 =
     Inr \<lparr> model_id = ''model-0'', name = ''Foo'', version = ''true'', description = [],
           framework = ''Unknown'', status = ''development'', owner = ''Unknown'',
           createdAt = ''t'', updatedAt = ''t'', metrics = None, files = None \<rparr>"
    by (simp add: normalize_defs sample_host_def show_nat_0)
  from string_fields_coerce_truthy_values [OF n] n show ?thesis by (simp add: show_nat_0)
qed

text \<open>
  Claim C7 as stated fails: a record that supplies \<^verbatim>\<open>false\<close> for the name and the
  number zero for the version gets the defaults of both fields, not the string
  conversions \<^verbatim>\<open>false\<close> and \<^verbatim>\<open>0\<close>.
\<close>

theorem falsy_field_value_counterexample:
  "map_of [(''name'', JBool False :: int jsval), (''version'', JNum 0)] ''name'' = Some (JBool False) \<and>
   js_String sample_host (JBool False) = Inr ''false'' \<and>
   map_of [(''name'', JBool False :: int jsval), (''version'', JNum 0)] ''version'' = Some (JNum 0) \<and>
   js_String sample_host (JNum 0) = Inr ''0'' \<and>
   normalizeModel sample_host ''t'' (JObj [(''name'', JBool False), (''version'', JNum 0)]) 0 =
     Inr \<lparr> model_id = ''model-0'', name = ''Unnamed Model'', version = ''1.0.0'',
           description = [], framework = ''Unknown'', status = ''development'',
           owner = ''Unknown'', createdAt = ''t'', updatedAt = ''t'', metrics = None,
           files = None \<rparr>"
  by (simp add: normalize_defs sample_host_def show_nat_0)

subsection \<open>Writing a model list as JSON and reading it back\<close>





















end
